theory Spec2Isabelle
  imports Main
begin

section \<open>The JavaScript values the component computes with\<close>

text \<open>
  Every number of \<^verbatim>\<open>App.vue\<close> that matters here is a count of milliseconds, an hour,
  a minute or a day of the month: an integer, or \<^verbatim>\<open>NaN\<close>. A \<^verbatim>\<open>Date\<close> object is its time
  value, the milliseconds since the epoch, with \<^verbatim>\<open>NaN\<close> for an Invalid Date.
\<close>

datatype jsnum = NaN | Num int

text \<open>The relational operators: a comparison with \<^verbatim>\<open>NaN\<close> is false.\<close>

fun js_lt :: "jsnum \<Rightarrow> jsnum \<Rightarrow> bool" where
  "js_lt (Num a) (Num b) = (a < b)"
| "js_lt _ _ = False"

fun js_le :: "jsnum \<Rightarrow> jsnum \<Rightarrow> bool" where
  "js_le (Num a) (Num b) = (a \<le> b)"
| "js_le _ _ = False"

fun js_gt :: "jsnum \<Rightarrow> jsnum \<Rightarrow> bool" where
  "js_gt (Num a) (Num b) = (a > b)"
| "js_gt _ _ = False"

fun js_add :: "jsnum \<Rightarrow> jsnum \<Rightarrow> jsnum" where
  "js_add (Num a) (Num b) = Num (a + b)"
| "js_add _ _ = NaN"

fun js_sub :: "jsnum \<Rightarrow> jsnum \<Rightarrow> jsnum" where
  "js_sub (Num a) (Num b) = Num (a - b)"
| "js_sub _ _ = NaN"

text \<open>
  \<^verbatim>\<open>a % b\<close> takes the sign of the dividend; \<^verbatim>\<open>Math.floor(a / b)\<close> is written as one
  operation, since the quotient itself need not be an integer.
\<close>

fun js_rem :: "jsnum \<Rightarrow> jsnum \<Rightarrow> jsnum" where
  "js_rem (Num a) (Num b) = (if b = 0 then NaN else Num (sgn a * (\<bar>a\<bar> mod \<bar>b\<bar>)))"
| "js_rem _ _ = NaN"

fun js_floor_div :: "jsnum \<Rightarrow> jsnum \<Rightarrow> jsnum" where
  "js_floor_div (Num a) (Num b) = (if b = 0 then NaN else Num (a div b))"
| "js_floor_div _ _ = NaN"

subsection \<open>\<^verbatim>\<open>String.prototype.split\<close> and \<^verbatim>\<open>Number\<close>\<close>

fun split :: "char \<Rightarrow> string \<Rightarrow> string list" where
  "split c [] = [[]]"
| "split c (x # xs) =
     (if x = c then [] # split c xs
      else (case split c xs of [] \<Rightarrow> [[x]] | w # ws \<Rightarrow> (x # w) # ws))"

definition is_digit :: "char \<Rightarrow> bool" where
  "is_digit c = (48 \<le> (of_char c :: nat) \<and> (of_char c :: nat) \<le> 57)"

definition digit_value :: "char \<Rightarrow> int" where
  "digit_value c = int (of_char c) - 48"

definition decimal_value :: "string \<Rightarrow> int" where
  "decimal_value s = foldl (\<lambda>a c. 10 * a + digit_value c) 0 s"

text \<open>
  \<^verbatim>\<open>Number(s)\<close> on a string: the empty string is 0 and a string of decimal digits is its
  value. Every other string is mapped to \<^verbatim>\<open>NaN\<close>; JavaScript does so too unless the string
  has surrounding white space, a sign, a fraction, an exponent, a radix prefix or is
  \<^verbatim>\<open>Infinity\<close>. The statements below that name the strings they convert are about
  strings of digits and strings with no colon; the others hold whatever \<^verbatim>\<open>Number\<close> returns.
  JavaScript rounds a value beyond \<open>2^53\<close> to a double; with a clock after 1970, an hour
  or minute of that size leaves the range of Date with or without the rounding.
\<close>

definition Number :: "string \<Rightarrow> jsnum" where
  "Number s = (if list_all is_digit s then Num (decimal_value s) else NaN)"

text \<open>
  An array element that may be missing: \<^verbatim>\<open>undefined\<close> is \<open>None\<close>, and \<^verbatim>\<open>ToNumber\<close>
  of \<^verbatim>\<open>undefined\<close> is \<^verbatim>\<open>NaN\<close>.
\<close>

fun element :: "'a list \<Rightarrow> nat \<Rightarrow> 'a option" where
  "element [] i = None"
| "element (x # xs) 0 = Some x"
| "element (x # xs) (Suc i) = element xs i"

fun ToNumber :: "jsnum option \<Rightarrow> jsnum" where
  "ToNumber None = NaN"
| "ToNumber (Some v) = v"

subsection \<open>Time values (ECMAScript, Date objects)\<close>

definition msPerDay :: int where "msPerDay = 86400000"
definition msPerHour :: int where "msPerHour = 3600000"
definition msPerMinute :: int where "msPerMinute = 60000"
definition msPerSecond :: int where "msPerSecond = 1000"

definition Day :: "int \<Rightarrow> int" where
  "Day t = t div msPerDay"

definition TimeWithinDay :: "int \<Rightarrow> int" where
  "TimeWithinDay t = t mod msPerDay"

definition DaysInYear :: "int \<Rightarrow> int" where
  "DaysInYear y =
     (if y mod 4 \<noteq> 0 then 365 else if y mod 100 \<noteq> 0 then 366
      else if y mod 400 \<noteq> 0 then 365 else 366)"

definition DayFromYear :: "int \<Rightarrow> int" where
  "DayFromYear y =
     365 * (y - 1970) + (y - 1969) div 4 - (y - 1901) div 100 + (y - 1601) div 400"

definition TimeFromYear :: "int \<Rightarrow> int" where
  "TimeFromYear y = msPerDay * DayFromYear y"

text \<open>
  \<^verbatim>\<open>YearFromTime(t)\<close> is the largest year \<open>y\<close> with \<open>TimeFromYear y \<le> t\<close>. It is computed
  from the mean length of a year (146097 days in 400 years), which is off by at most one
  year; lemma \<open>YearFromTime_largest\<close> below shows that the result is that year.
\<close>

definition YearFromTime :: "int \<Rightarrow> int" where
  "YearFromTime t =
     (let d = Day t; y = 1970 + (d * 400) div 146097
      in if d < DayFromYear y then y - 1
         else if DayFromYear (y + 1) \<le> d then y + 1 else y)"

definition InLeapYear :: "int \<Rightarrow> int" where
  "InLeapYear t = (if DaysInYear (YearFromTime t) = 366 then 1 else 0)"

definition DayWithinYear :: "int \<Rightarrow> int" where
  "DayWithinYear t = Day t - DayFromYear (YearFromTime t)"

text \<open>The day of the year on which month \<open>m\<close> (0 to 11) begins; 12 is the year's end.\<close>

definition monthStart :: "int \<Rightarrow> int \<Rightarrow> int" where
  "monthStart leap m =
     (if m = 0 then 0 else if m = 1 then 31 else if m = 2 then 59 + leap
      else if m = 3 then 90 + leap else if m = 4 then 120 + leap
      else if m = 5 then 151 + leap else if m = 6 then 181 + leap
      else if m = 7 then 212 + leap else if m = 8 then 243 + leap
      else if m = 9 then 273 + leap else if m = 10 then 304 + leap
      else if m = 11 then 334 + leap else 365 + leap)"

definition MonthFromTime :: "int \<Rightarrow> int" where
  "MonthFromTime t =
     (let d = DayWithinYear t; leap = InLeapYear t
      in if d < 31 then 0 else if d < 59 + leap then 1 else if d < 90 + leap then 2
         else if d < 120 + leap then 3 else if d < 151 + leap then 4
         else if d < 181 + leap then 5 else if d < 212 + leap then 6
         else if d < 243 + leap then 7 else if d < 273 + leap then 8
         else if d < 304 + leap then 9 else if d < 334 + leap then 10 else 11)"

definition DateFromTime :: "int \<Rightarrow> int" where
  "DateFromTime t = DayWithinYear t - monthStart (InLeapYear t) (MonthFromTime t) + 1"

text \<open>
  \<^verbatim>\<open>MakeTime\<close>, \<^verbatim>\<open>MakeDay\<close>, \<^verbatim>\<open>MakeDate\<close> and \<^verbatim>\<open>TimeClip\<close>. An argument that is not
  finite makes the result \<^verbatim>\<open>NaN\<close>; \<^verbatim>\<open>MakeDay\<close> carries a month outside 0 to 11 into the
  year and counts the day of the month on from the first of that month, so that day 0
  is the last day of the month before and day 32 runs into the next month.
\<close>

fun MakeTime :: "jsnum \<Rightarrow> jsnum \<Rightarrow> jsnum \<Rightarrow> jsnum \<Rightarrow> jsnum" where
  "MakeTime (Num h) (Num m) (Num s) (Num milli) =
     Num (h * msPerHour + m * msPerMinute + s * msPerSecond + milli)"
| "MakeTime _ _ _ _ = NaN"

fun MakeDay :: "jsnum \<Rightarrow> jsnum \<Rightarrow> jsnum \<Rightarrow> jsnum" where
  "MakeDay (Num year) (Num month) (Num date) =
     (let ym = year + month div 12; mn = month mod 12
      in Num (DayFromYear ym + monthStart (if DaysInYear ym = 366 then 1 else 0) mn
              + date - 1))"
| "MakeDay _ _ _ = NaN"

fun MakeDate :: "jsnum \<Rightarrow> jsnum \<Rightarrow> jsnum" where
  "MakeDate (Num day) (Num time) = Num (day * msPerDay + time)"
| "MakeDate _ _ = NaN"

fun TimeClip :: "jsnum \<Rightarrow> jsnum" where
  "TimeClip NaN = NaN"
| "TimeClip (Num t) = (if \<bar>t\<bar> > 8640000000000000 then NaN else Num t)"

text \<open>
  Local time. The offset of the process's time zone from UTC, in milliseconds, is the
  parameter \<open>tza\<close> of everything below; it is taken as constant (no daylight saving
  change), which is what the component assumes of its schedule as well.
\<close>

definition LocalTime :: "int \<Rightarrow> int \<Rightarrow> int" where
  "LocalTime tza t = t + tza"

fun UTC :: "int \<Rightarrow> jsnum \<Rightarrow> jsnum" where
  "UTC tza (Num t) = Num (t - tza)"
| "UTC tza NaN = NaN"

text \<open>
  The three methods of \<^verbatim>\<open>Date.prototype\<close> that the component calls, on a time value:
  \<^verbatim>\<open>getDate()\<close>, \<^verbatim>\<open>setDate(date)\<close> and \<^verbatim>\<open>setHours(hour, min, sec, ms)\<close>, each returning the
  number it returns or the time value it stores.
\<close>

fun getDate :: "int \<Rightarrow> jsnum \<Rightarrow> jsnum" where
  "getDate tza NaN = NaN"
| "getDate tza (Num t) = Num (DateFromTime (LocalTime tza t))"

fun setDate :: "int \<Rightarrow> jsnum \<Rightarrow> jsnum \<Rightarrow> jsnum" where
  "setDate tza NaN dt = NaN"
| "setDate tza (Num t0) dt =
     (let t = LocalTime tza t0;
          newDate = MakeDate (MakeDay (Num (YearFromTime t)) (Num (MonthFromTime t)) dt)
                      (Num (TimeWithinDay t))
      in TimeClip (UTC tza newDate))"

fun setHours :: "int \<Rightarrow> jsnum \<Rightarrow> jsnum \<Rightarrow> jsnum \<Rightarrow> jsnum \<Rightarrow> jsnum \<Rightarrow> jsnum" where
  "setHours tza NaN h m s milli = NaN"
| "setHours tza (Num t0) h m s milli =
     (let t = LocalTime tza t0;
          date = MakeDate (Num (Day t)) (MakeTime h m s milli)
      in TimeClip (UTC tza date))"

section \<open>The component's data\<close>

text \<open>
  \<^verbatim>\<open>PrayerTimings\<close> is the interface of \<^verbatim>\<open>App.vue\<close>; \<open>PrayerName\<close> is its key type
  \<^verbatim>\<open>keyof PrayerTimings\<close>, and \<open>keyName\<close> the string each key is at run time. Of
  \<^verbatim>\<open>PrayerResponse\<close> only \<^verbatim>\<open>timings\<close> is read by the computations modelled here.
\<close>

record PrayerTimings =
  Fajr :: string
  Sunrise :: string
  Duhur :: string
  Asr :: string
  Maqhrib :: string
  Isha :: string

record PrayerResponse =
  timings :: PrayerTimings

datatype PrayerName = KFajr | KSunrise | KDuhur | KAsr | KMaqhrib | KIsha

fun keyName :: "PrayerName \<Rightarrow> string" where
  "keyName KFajr = ''Fajr''"
| "keyName KSunrise = ''Sunrise''"
| "keyName KDuhur = ''Duhur''"
| "keyName KAsr = ''Asr''"
| "keyName KMaqhrib = ''Maqhrib''"
| "keyName KIsha = ''Isha''"

text \<open>\<^verbatim>\<open>timings[prayer as keyof PrayerTimings]\<close>\<close>

fun timing :: "PrayerTimings \<Rightarrow> PrayerName \<Rightarrow> string" where
  "timing ts KFajr = Fajr ts"
| "timing ts KSunrise = Sunrise ts"
| "timing ts KDuhur = Duhur ts"
| "timing ts KAsr = Asr ts"
| "timing ts KMaqhrib = Maqhrib ts"
| "timing ts KIsha = Isha ts"

definition prayerOrder :: "PrayerName list" where
  "prayerOrder = [KFajr, KSunrise, KDuhur, KAsr, KMaqhrib, KIsha]"

text \<open>The object the two resolvers return, and the one the two duration computations return.\<close>

record Prayer =
  name :: string
  time :: jsnum
  timeString :: string

record Duration =
  hours :: jsnum
  minutes :: jsnum
  seconds :: jsnum
  totalMs :: jsnum

text \<open>
  The refs of the component that the computations read or write. \<open>currentTime\<close> is
  always a valid Date (it only ever holds \<^verbatim>\<open>new Date()\<close>), so it is an integer.
\<close>

record AppState =
  prayerData :: "PrayerResponse option"
  currentTime :: int
  notificationShown :: string
  isManualToggle :: bool
  showNextPrayer :: bool

text \<open>The refs as the script initialises them; \<open>t0\<close> is the clock at start.\<close>

definition initialState :: "int \<Rightarrow> AppState" where
  "initialState t0 =
     \<lparr>prayerData = None, currentTime = t0, notificationShown = [],
      isManualToggle = False, showNextPrayer = True\<rparr>"

section \<open>The component's computations\<close>

text \<open>
  \<^verbatim>\<open>prayerTimeToDate\<close>. \<open>clock\<close> is what \<^verbatim>\<open>new Date()\<close> reads; the function has no
  \<^verbatim>\<open>throw\<close> and no check of its argument. The calls made while one computed value is
  evaluated are given one reading of the clock: \<^verbatim>\<open>setHours\<close> overwrites everything of it
  but the day. \<^verbatim>\<open>currentTime\<close>, the \<open>now\<close> of the computations, is a reading of its own,
  stored by the timer.
\<close>

definition prayerTimeToDate :: "int \<Rightarrow> int \<Rightarrow> string \<Rightarrow> jsnum" where
  "prayerTimeToDate tza clock timeStr =
     (let parts = map Number (split CHR '':'' timeStr);
          hours = element parts 0;
          minutes = element parts 1;
          date = Num clock
      in setHours tza date (ToNumber hours) (ToNumber minutes) (Num 0) (Num 0))"

text \<open>
  \<^verbatim>\<open>nextPrayer\<close>: the loop over \<^verbatim>\<open>prayerOrder\<close> returns from inside at the first prayer whose
  time is after \<open>now\<close>; \<open>None\<close> is the loop running to its end.
\<close>

fun nextPrayer_loop :: "int \<Rightarrow> int \<Rightarrow> PrayerTimings \<Rightarrow> int \<Rightarrow> PrayerName list \<Rightarrow> Prayer option" where
  "nextPrayer_loop tza clock ts now [] = None"
| "nextPrayer_loop tza clock ts now (prayer # rest) =
     (let prayerTime = prayerTimeToDate tza clock (timing ts prayer)
      in if js_gt prayerTime (Num now)
         then Some \<lparr>name = keyName prayer, time = prayerTime, timeString = timing ts prayer\<rparr>
         else nextPrayer_loop tza clock ts now rest)"

definition nextPrayer :: "int \<Rightarrow> int \<Rightarrow> AppState \<Rightarrow> Prayer option" where
  "nextPrayer tza clock st =
     (case prayerData st of
        None \<Rightarrow> None
      | Some data \<Rightarrow>
          (let now = currentTime st
           in case nextPrayer_loop tza clock (timings data) now prayerOrder of
                Some found \<Rightarrow> Some found
              | None \<Rightarrow>
                  (let tomorrow = Num now;
                       tomorrow = setDate tza tomorrow (js_add (getDate tza tomorrow) (Num 1));
                       fajrTime = prayerTimeToDate tza clock (Fajr (timings data));
                       fajrTime = setDate tza fajrTime (getDate tza tomorrow)
                   in Some \<lparr>name = ''Fajr'', time = fajrTime,
                             timeString = Fajr (timings data)\<rparr>)))"

text \<open>
  \<^verbatim>\<open>previousPrayer\<close>: the loop keeps the last prayer whose time is not after \<open>now\<close> in
  \<open>lastPrayer\<close> and breaks at the first one that is.
\<close>

fun previousPrayer_loop ::
  "int \<Rightarrow> int \<Rightarrow> PrayerTimings \<Rightarrow> int \<Rightarrow> Prayer option \<Rightarrow> PrayerName list \<Rightarrow> Prayer option" where
  "previousPrayer_loop tza clock ts now lastPrayer [] = lastPrayer"
| "previousPrayer_loop tza clock ts now lastPrayer (prayer # rest) =
     (let prayerTime = prayerTimeToDate tza clock (timing ts prayer)
      in if js_le prayerTime (Num now)
         then previousPrayer_loop tza clock ts now
                (Some \<lparr>name = keyName prayer, time = prayerTime,
                        timeString = timing ts prayer\<rparr>) rest
         else lastPrayer)"

definition previousPrayer :: "int \<Rightarrow> int \<Rightarrow> AppState \<Rightarrow> Prayer option" where
  "previousPrayer tza clock st =
     (case prayerData st of
        None \<Rightarrow> None
      | Some data \<Rightarrow>
          (let now = currentTime st
           in case previousPrayer_loop tza clock (timings data) now None prayerOrder of
                Some lastPrayer \<Rightarrow> Some lastPrayer
              | None \<Rightarrow>
                  (let yesterday = Num now;
                       yesterday = setDate tza yesterday (js_sub (getDate tza yesterday) (Num 1));
                       ishaTime = prayerTimeToDate tza clock (Isha (timings data));
                       ishaTime = setDate tza ishaTime (getDate tza yesterday)
                   in Some \<lparr>name = ''Isha'', time = ishaTime,
                             timeString = Isha (timings data)\<rparr>)))"

text \<open>
  The two duration computations, as functions of the reference they read and of
  \<open>now\<close>: \<open>remainingUntil\<close> is the body of \<^verbatim>\<open>timeRemaining\<close> and \<open>elapsedSince\<close> that of
  \<^verbatim>\<open>timePassed\<close>; \<open>None\<close> is \<^verbatim>\<open>null\<close>.
\<close>

definition decompose :: "jsnum \<Rightarrow> Duration" where
  "decompose diff =
     \<lparr>hours = js_floor_div diff (Num (1000 * 60 * 60)),
      minutes = js_floor_div (js_rem diff (Num (1000 * 60 * 60))) (Num (1000 * 60)),
      seconds = js_floor_div (js_rem diff (Num (1000 * 60))) (Num 1000),
      totalMs = diff\<rparr>"

definition remainingUntil :: "Prayer option \<Rightarrow> int \<Rightarrow> Duration option" where
  "remainingUntil target now =
     (case target of
        None \<Rightarrow> None
      | Some p \<Rightarrow>
          (let diff = js_sub (time p) (Num now)
           in if js_lt diff (Num 0) then None else Some (decompose diff)))"

definition elapsedSince :: "Prayer option \<Rightarrow> int \<Rightarrow> Duration option" where
  "elapsedSince reference now =
     (case reference of
        None \<Rightarrow> None
      | Some p \<Rightarrow>
          (let diff = js_sub (Num now) (time p)
           in if js_lt diff (Num 0) then None else Some (decompose diff)))"

definition timeRemaining :: "int \<Rightarrow> int \<Rightarrow> AppState \<Rightarrow> Duration option" where
  "timeRemaining tza clock st = remainingUntil (nextPrayer tza clock st) (currentTime st)"

definition timePassed :: "int \<Rightarrow> int \<Rightarrow> AppState \<Rightarrow> Duration option" where
  "timePassed tza clock st = elapsedSince (previousPrayer tza clock st) (currentTime st)"

text \<open>\<^verbatim>\<open>shouldShowNextPrayer\<close>: \<open>True\<close> shows the next prayer, \<open>False\<close> the previous one.\<close>

definition shouldShowNextPrayer :: "int \<Rightarrow> int \<Rightarrow> AppState \<Rightarrow> bool" where
  "shouldShowNextPrayer tza clock st =
     (if isManualToggle st then showNextPrayer st
      else (case timePassed tza clock st of
              None \<Rightarrow> True
            | Some passed \<Rightarrow>
                (let thirtyFiveMinutesMs = Num (35 * 60 * 1000)
                 in js_gt (totalMs passed) thirtyFiveMinutesMs)))"

definition togglePrayerMode :: "AppState \<Rightarrow> AppState" where
  "togglePrayerMode st = st\<lparr>isManualToggle := True, showNextPrayer := \<not> showNextPrayer st\<rparr>"

text \<open>
  \<^verbatim>\<open>checkNotification\<close>. A call of \<^verbatim>\<open>showNotification(title, body)\<close> is the pair it is
  called with; the function returns what it emitted, if anything, and the state it leaves.
  \<open>checkNotification_body\<close> is the function's body as a function of the two computed
  values it reads, \<^verbatim>\<open>timeRemaining.value\<close> and \<^verbatim>\<open>nextPrayer.value\<close>, and of the refs;
  \<open>checkNotification\<close> runs it on what the two computed values are.
\<close>

definition checkNotification_body ::
  "Duration option \<Rightarrow> Prayer option \<Rightarrow> AppState \<Rightarrow> (string \<times> string) option \<times> AppState" where
  "checkNotification_body timeRemaining_value nextPrayer_value st =
     (case (timeRemaining_value, nextPrayer_value) of
        (Some remaining, Some next) \<Rightarrow>
          (let fiveMinutesMs = Num (5 * 60 * 1000);
               oneMinuteMs = Num (1 * 60 * 1000);
               prayerKey = name next
           in if js_le (totalMs remaining) fiveMinutesMs \<and> js_gt (totalMs remaining) oneMinuteMs
              then (if notificationShown st \<noteq> prayerKey @ ''-5min''
                    then (Some (name next @ '' prayer in 5 minutes!'',
                                ''Time: '' @ timeString next),
                          st\<lparr>notificationShown := prayerKey @ ''-5min''\<rparr>)
                    else (None, st))
              else if js_le (totalMs remaining) oneMinuteMs \<and> js_gt (totalMs remaining) (Num 0)
              then (if notificationShown st \<noteq> prayerKey @ ''-1min''
                    then (Some (name next @ '' prayer in 1 minute!'',
                                ''Time: '' @ timeString next),
                          st\<lparr>notificationShown := prayerKey @ ''-1min''\<rparr>)
                    else (None, st))
              else if js_le (totalMs remaining) (Num 0)
              then (if notificationShown st \<noteq> prayerKey @ ''-now''
                    then (Some (name next @ '' prayer time!'',
                                ''Time: '' @ timeString next),
                          st\<lparr>notificationShown := prayerKey @ ''-now''\<rparr>)
                    else (None, st))
              else (None, st))
      | _ \<Rightarrow> (None, st))"

definition checkNotification ::
  "int \<Rightarrow> int \<Rightarrow> AppState \<Rightarrow> (string \<times> string) option \<times> AppState" where
  "checkNotification tza clock st =
     checkNotification_body (timeRemaining tza clock st) (nextPrayer tza clock st) st"

text \<open>
  One firing of the timer of \<^verbatim>\<open>startTimeUpdates\<close>: \<^verbatim>\<open>currentTime\<close> becomes the clock's
  reading, then \<^verbatim>\<open>checkNotification\<close> runs. \<open>run\<close> is a sequence of firings, one for each
  reading of the clock, returning every notification emitted in order.
\<close>

definition tick :: "int \<Rightarrow> int \<Rightarrow> AppState \<Rightarrow> (string \<times> string) option \<times> AppState" where
  "tick tza clock st = checkNotification tza clock (st\<lparr>currentTime := clock\<rparr>)"

fun run :: "int \<Rightarrow> int list \<Rightarrow> AppState \<Rightarrow> (string \<times> string) list \<times> AppState" where
  "run tza [] st = ([], st)"
| "run tza (clock # clocks) st =
     (case tick tza clock st of
        (emitted, st') \<Rightarrow>
          (case run tza clocks st' of
             (later, st'') \<Rightarrow> ((case emitted of None \<Rightarrow> [] | Some n \<Rightarrow> [n]) @ later, st'')))"

text \<open>
  What happens to the component: the timer fires (\<^verbatim>\<open>startTimeUpdates\<close>), the prayer name is
  clicked (\<^verbatim>\<open>onPrayerNameClick\<close>, which calls \<^verbatim>\<open>togglePrayerMode\<close>), or a fetch succeeds and
  stores its response in \<^verbatim>\<open>prayerData\<close>.
\<close>

datatype event = TimerFired int | PrayerNameClicked | Fetched PrayerResponse

fun handle :: "int \<Rightarrow> event \<Rightarrow> AppState \<Rightarrow> AppState" where
  "handle tza (TimerFired clock) st = snd (tick tza clock st)"
| "handle tza PrayerNameClicked st = togglePrayerMode st"
| "handle tza (Fetched data) st = st\<lparr>prayerData := Some data\<rparr>"

fun handleAll :: "int \<Rightarrow> event list \<Rightarrow> AppState \<Rightarrow> AppState" where
  "handleAll tza [] st = st"
| "handleAll tza (e # es) st = handleAll tza es (handle tza e st)"

section \<open>The specification's side\<close>

text \<open>
  The specification's \<open>HH:MM\<close>: two digits, a colon, two digits, hours 0 to 23 and
  minutes 0 to 59.
\<close>

definition spec_HHMM :: "string \<Rightarrow> bool" where
  "spec_HHMM s =
     (case s of
        [h1, h2, c, m1, m2] \<Rightarrow>
          is_digit h1 \<and> is_digit h2 \<and> c = CHR '':'' \<and> is_digit m1 \<and> is_digit m2
          \<and> decimal_value [h1, h2] \<le> 23 \<and> decimal_value [m1, m2] \<le> 59
      | _ \<Rightarrow> False)"

text \<open>
  The specification's threshold mapping, in its priority order, first match wins, and the
  key it builds from the prayer's name.
\<close>

definition spec_threshold :: "int \<Rightarrow> string option" where
  "spec_threshold remaining =
     (if remaining \<le> 0 then Some ''now''
      else if remaining \<le> 60000 then Some ''1min''
      else if remaining \<le> 300000 \<and> remaining > 60000 then Some ''5min''
      else None)"

definition spec_key :: "string \<Rightarrow> int \<Rightarrow> string option" where
  "spec_key prayer remaining =
     map_option (\<lambda>threshold. prayer @ ''-'' @ threshold) (spec_threshold remaining)"

text \<open>A schedule whose six instants of the clock's day are valid and strictly increasing.\<close>

definition increasing :: "int \<Rightarrow> int \<Rightarrow> PrayerTimings \<Rightarrow> bool" where
  "increasing tza clock ts =
     (js_lt (prayerTimeToDate tza clock (Fajr ts)) (prayerTimeToDate tza clock (Sunrise ts))
      \<and> js_lt (prayerTimeToDate tza clock (Sunrise ts)) (prayerTimeToDate tza clock (Duhur ts))
      \<and> js_lt (prayerTimeToDate tza clock (Duhur ts)) (prayerTimeToDate tza clock (Asr ts))
      \<and> js_lt (prayerTimeToDate tza clock (Asr ts)) (prayerTimeToDate tza clock (Maqhrib ts))
      \<and> js_lt (prayerTimeToDate tza clock (Maqhrib ts)) (prayerTimeToDate tza clock (Isha ts)))"

text \<open>
  The schedule of the specification's scenarios, and the component holding it at \<open>now\<close>
  with nothing notified and no click yet. Concrete instants below are time values at
  offset 0: 1736965800000 is 2025-01-15 18:30:00, 1738357200000 is 2025-01-31 21:00:00
  and 1740801600000 is 2025-03-01 04:00:00.
\<close>

definition exampleTimings :: PrayerTimings where
  "exampleTimings =
     \<lparr>Fajr = ''05:00'', Sunrise = ''06:20'', Duhur = ''12:15'', Asr = ''15:45'',
      Maqhrib = ''18:30'', Isha = ''20:00''\<rparr>"

definition exampleState :: "int \<Rightarrow> AppState" where
  "exampleState now =
     \<lparr>prayerData = Some \<lparr>timings = exampleTimings\<rparr>, currentTime = now,
      notificationShown = [], isManualToggle = False, showNextPrayer = True\<rparr>"

definition maqhribToday :: Prayer where
  "maqhribToday = \<lparr>name = ''Maqhrib'', time = Num 1736965800000, timeString = ''18:30''\<rparr>"

section \<open>The calendar: \<open>YearFromTime\<close> is the year ECMAScript specifies\<close>

lemma div_lower: "0 < (n::int) \<Longrightarrow> n * (x div n) \<le> x"
  using mult_div_mod_eq [of n x] pos_mod_sign [of n x] by linarith

lemma div_upper: "0 < (n::int) \<Longrightarrow> x < n * (x div n) + n"
  using mult_div_mod_eq [of n x] pos_mod_bound [of n x] by linarith

lemma DayFromYear_leap_days:
  "400 * DayFromYear (1970 + j) =
     146000 * j + 400 * ((j + 1) div 4) - 400 * ((j + 69) div 100) + 400 * ((j + 369) div 400)"
  by (simp add: DayFromYear_def add.commute)

lemma DayFromYear_lower: "146097 * j - 506 \<le> 400 * DayFromYear (1970 + j)"
proof -
  have A: "j + 1 < 4 * ((j + 1) div 4) + 4" by (rule div_upper) simp
  have B: "100 * ((j + 69) div 100) \<le> j + 69" by (rule div_lower) simp
  have C: "j + 369 < 400 * ((j + 369) div 400) + 400" by (rule div_upper) simp
  show ?thesis using A B C unfolding DayFromYear_leap_days by linarith
qed

lemma DayFromYear_upper: "400 * DayFromYear (1970 + j) \<le> 146097 * j + 589"
proof -
  have A: "4 * ((j + 1) div 4) \<le> j + 1" by (rule div_lower) simp
  have B: "j + 69 < 100 * ((j + 69) div 100) + 100" by (rule div_upper) simp
  have C: "400 * ((j + 369) div 400) \<le> j + 369" by (rule div_lower) simp
  show ?thesis using A B C unfolding DayFromYear_leap_days by linarith
qed

lemma DayFromYear_YearFromTime:
  "DayFromYear (YearFromTime t) \<le> Day t \<and> Day t < DayFromYear (YearFromTime t + 1)"
proof -
  define d where "d = Day t"
  define k where "k = (400 * d) div 146097"
  have K1: "146097 * k \<le> 400 * d" unfolding k_def by (rule div_lower) simp
  have K2: "400 * d < 146097 * k + 146097" unfolding k_def by (rule div_upper) simp
  have "400 * DayFromYear (1970 + (k - 1)) \<le> 146097 * k - 145508"
    using DayFromYear_upper [of "k - 1"] by (simp add: algebra_simps)
  then have lo: "DayFromYear (1970 + (k - 1)) \<le> d"
    using K1 by linarith
  have "146097 * k + 291688 \<le> 400 * DayFromYear (1970 + (k + 2))"
    using DayFromYear_lower [of "k + 2"] by (simp add: algebra_simps)
  then have hi: "d < DayFromYear (1970 + (k + 2))"
    using K2 by linarith
  have Y: "YearFromTime t =
     (if d < DayFromYear (1970 + k) then 1970 + (k - 1)
      else if DayFromYear (1970 + (k + 1)) \<le> d then 1970 + (k + 1) else 1970 + k)"
    by (simp add: YearFromTime_def Let_def d_def k_def add.assoc mult.commute)
  have E: "1970 + (k - 1) + 1 = 1970 + k" "1970 + (k + 1) + 1 = 1970 + (k + 2)"
    "1970 + k + 1 = 1970 + (k + 1)" by simp_all
  show ?thesis unfolding d_def [symmetric] Y using lo hi by (simp add: E)
qed

lemma YearFromTime_largest:
  "TimeFromYear (YearFromTime t) \<le> t \<and> t < TimeFromYear (YearFromTime t + 1)"
proof -
  have D1: "86400000 * (t div 86400000) \<le> t" by (rule div_lower) simp
  have D2: "t < 86400000 * (t div 86400000) + 86400000" by (rule div_upper) simp
  from DayFromYear_YearFromTime [of t]
  have "DayFromYear (YearFromTime t) \<le> t div 86400000"
    and "t div 86400000 + 1 \<le> DayFromYear (YearFromTime t + 1)"
    by (simp_all add: Day_def msPerDay_def)
  then show ?thesis using D1 D2 unfolding TimeFromYear_def msPerDay_def by linarith
qed

section \<open>Splitting a time string\<close>

lemma split_without: "c \<notin> set s \<Longrightarrow> split c s = [s]"
  by (induction s) auto

lemma split_once: "c \<notin> set hs \<Longrightarrow> c \<notin> set ms \<Longrightarrow> split c (hs @ c # ms) = [hs, ms]"
  by (induction hs) (auto simp add: split_without)

lemma digits_no_colon: "list_all is_digit s \<Longrightarrow> CHR '':'' \<notin> set s"
  by (induction s) (auto simp add: is_digit_def)

lemma prayerTimeToDate_digits:
  assumes "list_all is_digit hs" and "list_all is_digit ms"
  shows "prayerTimeToDate tza clock (hs @ '':'' @ ms) =
        TimeClip (Num (Day (LocalTime tza clock) * msPerDay
                       + (decimal_value hs * msPerHour + decimal_value ms * msPerMinute) - tza))"
proof -
  from assms have "split CHR '':'' (hs @ CHR '':'' # ms) = [hs, ms]"
    by (intro split_once digits_no_colon)
  then show ?thesis
    using assms by (simp add: prayerTimeToDate_def Number_def Let_def)
qed

lemma digit_value_range: "is_digit c \<Longrightarrow> 0 \<le> digit_value c \<and> digit_value c \<le> 9"
  by (auto simp add: is_digit_def digit_value_def)

text \<open>
  An \<open>HH:MM\<close> of the specification converts to a valid instant, that hour and minute of
  the clock's local day, for every clock that is more than a day inside the range of Date.
\<close>

lemma spec_HHMM_instant:
  assumes "spec_HHMM s" and "\<bar>clock\<bar> \<le> 8639999913600000"
  shows "\<exists>h m. 0 \<le> h \<and> h \<le> 23 \<and> 0 \<le> m \<and> m \<le> 59
           \<and> prayerTimeToDate tza clock s
               = Num (Day (LocalTime tza clock) * msPerDay
                      + (h * msPerHour + m * msPerMinute) - tza)"
proof -
  from assms(1) obtain h1 h2 m1 m2 where s: "s = [h1, h2] @ '':'' @ [m1, m2]"
    and d: "is_digit h1" "is_digit h2" "is_digit m1" "is_digit m2"
    and r: "decimal_value [h1, h2] \<le> 23" "decimal_value [m1, m2] \<le> 59"
    by (auto simp add: spec_HHMM_def split: list.splits)
  define h where "h = decimal_value [h1, h2]"
  define m where "m = decimal_value [m1, m2]"
  have h0: "0 \<le> h" and m0: "0 \<le> m"
    using digit_value_range [OF d(1)] digit_value_range [OF d(2)]
      digit_value_range [OF d(3)] digit_value_range [OF d(4)]
    by (simp_all add: h_def m_def decimal_value_def)
  have P: "prayerTimeToDate tza clock s =
        TimeClip (Num (Day (LocalTime tza clock) * msPerDay
                       + (h * msPerHour + m * msPerMinute) - tza))"
    unfolding s h_def m_def using d by (intro prayerTimeToDate_digits) simp_all
  define L where "L = clock + tza"
  have D1: "86400000 * (L div 86400000) \<le> L" by (rule div_lower) simp
  have D2: "L < 86400000 * (L div 86400000) + 86400000" by (rule div_upper) simp
  have H: "3600000 * h \<le> 82800000" "60000 * m \<le> 3540000" "0 \<le> 3600000 * h" "0 \<le> 60000 * m"
    using r h0 m0 by (simp_all add: h_def m_def)
  have "\<bar>86400000 * (L div 86400000) + (3600000 * h + 60000 * m) - tza\<bar> \<le> 8640000000000000"
    using D1 D2 H assms(2) unfolding L_def by linarith
  then have "TimeClip (Num (Day (LocalTime tza clock) * msPerDay
                            + (h * msPerHour + m * msPerMinute) - tza))
     = Num (Day (LocalTime tza clock) * msPerDay + (h * msPerHour + m * msPerMinute) - tza)"
    by (simp add: Day_def LocalTime_def msPerDay_def msPerHour_def msPerMinute_def L_def
        mult.commute)
  with P h0 m0 r show ?thesis unfolding h_def m_def by auto
qed

lemma spec_schedule_valid:
  assumes "\<forall>k. spec_HHMM (timing ts k)" and "\<bar>clock\<bar> \<le> 8639999913600000"
  shows "\<forall>k. prayerTimeToDate tza clock (timing ts k) \<noteq> NaN"
proof
  fix k
  from assms(1) have "spec_HHMM (timing ts k)" ..
  from spec_HHMM_instant [OF this assms(2), of tza]
  show "prayerTimeToDate tza clock (timing ts k) \<noteq> NaN" by auto
qed

section \<open>The two loops\<close>

text \<open>
  The loop of \<^verbatim>\<open>nextPrayer\<close> returns the first prayer of the order whose instant is after
  \<open>now\<close>; the loop of \<^verbatim>\<open>previousPrayer\<close> returns the last prayer of the longest initial
  stretch of the order whose instants are not after \<open>now\<close>.
\<close>

lemma nextPrayer_loop_first:
  "nextPrayer_loop tza clock ts now ks =
     (case dropWhile (\<lambda>k. \<not> js_gt (prayerTimeToDate tza clock (timing ts k)) (Num now)) ks of
        [] \<Rightarrow> None
      | k # rest \<Rightarrow> Some \<lparr>name = keyName k, time = prayerTimeToDate tza clock (timing ts k),
                          timeString = timing ts k\<rparr>)"
  by (induction ks) (simp_all add: Let_def)

lemma previousPrayer_loop_last:
  "previousPrayer_loop tza clock ts now lastPrayer ks =
     (case takeWhile (\<lambda>k. js_le (prayerTimeToDate tza clock (timing ts k)) (Num now)) ks of
        [] \<Rightarrow> lastPrayer
      | k # rest \<Rightarrow> Some \<lparr>name = keyName (last (k # rest)),
                          time = prayerTimeToDate tza clock (timing ts (last (k # rest))),
                          timeString = timing ts (last (k # rest))\<rparr>)"
  by (induction ks arbitrary: lastPrayer) (simp_all add: Let_def split: list.split)

lemma previousPrayer_loop_not_after_now:
  assumes "previousPrayer_loop tza clock ts now lastPrayer ks = Some p"
    and "\<And>q. lastPrayer = Some q \<Longrightarrow> js_le (time q) (Num now)"
  shows "js_le (time p) (Num now)"
  using assms
proof (induction ks arbitrary: lastPrayer)
  case Nil
  then show ?case by simp
next
  case (Cons k ks)
  show ?case
  proof (cases "js_le (prayerTimeToDate tza clock (timing ts k)) (Num now)")
    case True
    with Cons.prems(1) have "previousPrayer_loop tza clock ts now
        (Some \<lparr>name = keyName k, time = prayerTimeToDate tza clock (timing ts k),
               timeString = timing ts k\<rparr>) ks = Some p"
      by (simp add: Let_def)
    moreover have "js_le (time q) (Num now)"
      if "Some \<lparr>name = keyName k, time = prayerTimeToDate tza clock (timing ts k),
               timeString = timing ts k\<rparr> = Some q" for q
      using that True by auto
    ultimately show ?thesis by (rule Cons.IH)
  next
    case False
    with Cons.prems show ?thesis by (simp add: Let_def)
  qed
qed


text \<open>A prayer found by the loop of \<^verbatim>\<open>nextPrayer\<close> lies after \<open>now\<close>, so its remaining time
  is positive: with such a prayer the branch \<^verbatim>\<open>totalMs <= 0\<close> of \<^verbatim>\<open>checkNotification\<close> is
  never taken.\<close>

lemma nextPrayer_loop_after_now:
  "nextPrayer_loop tza clock ts now ks = Some p \<Longrightarrow> js_gt (time p) (Num now)"
  by (induction ks) (auto simp add: Let_def split: if_splits)

lemma nextPrayer_loop_remaining_positive:
  assumes "nextPrayer_loop tza clock ts now ks = Some p"
    and "remainingUntil (Some p) now = Some d"
  shows "js_gt (totalMs d) (Num 0)"
proof -
  from assms(1) have "js_gt (time p) (Num now)" by (rule nextPrayer_loop_after_now)
  then obtain t where "time p = Num t" "now < t" by (cases "time p") auto
  with assms(2) show ?thesis
    by (auto simp add: remainingUntil_def decompose_def Let_def split: if_splits)
qed

lemma valid_instants:
  assumes "\<forall>k. prayerTimeToDate tza clock (timing ts k) \<noteq> NaN"
  obtains a b c d e f where
    "prayerTimeToDate tza clock (Fajr ts) = Num a"
    "prayerTimeToDate tza clock (Sunrise ts) = Num b"
    "prayerTimeToDate tza clock (Duhur ts) = Num c"
    "prayerTimeToDate tza clock (Asr ts) = Num d"
    "prayerTimeToDate tza clock (Maqhrib ts) = Num e"
    "prayerTimeToDate tza clock (Isha ts) = Num f"
proof -
  have "\<exists>x. prayerTimeToDate tza clock (timing ts k) = Num x" for k
    using assms by (cases "prayerTimeToDate tza clock (timing ts k)") auto
  from this [of KFajr] this [of KSunrise] this [of KDuhur] this [of KAsr] this [of KMaqhrib]
    this [of KIsha] that
  show ?thesis by auto
qed

lemma exampleTimings_valid:
  "prayerTimeToDate 0 1736965800000 (timing exampleTimings k) \<noteq> NaN"
  by (cases k) (simp_all, code_simp+)

section \<open>The mode flags\<close>

lemma tick_flags:
  "isManualToggle (snd (tick tza clock st)) = isManualToggle st
   \<and> showNextPrayer (snd (tick tza clock st)) = showNextPrayer st"
  by (simp add: tick_def checkNotification_def checkNotification_body_def Let_def
      split: option.split)

lemma handle_flags:
  "showNextPrayer (handle tza e st) = (showNextPrayer st = (e \<noteq> PrayerNameClicked))
   \<and> isManualToggle (handle tza e st) = (isManualToggle st \<or> e = PrayerNameClicked)"
  by (cases e) (simp_all add: tick_flags togglePrayerMode_def)

lemma handleAll_flags:
  "showNextPrayer (handleAll tza es st)
     = (showNextPrayer st = even (count_list es PrayerNameClicked))
   \<and> isManualToggle (handleAll tza es st)
     = (isManualToggle st \<or> 0 < count_list es PrayerNameClicked)"
  by (induction es arbitrary: st) (auto simp add: handle_flags)

section \<open>The reference resolvers\<close>

text \<open>
  C1. The next-prayer resolver is to return the first prayer of the fixed order whose
  instant today is after \<open>now\<close>, and Fajr of the following calendar day when there is
  none, so that the instant it returns is always after \<open>now\<close>. The fallback sets the day of
  the month of today's Fajr to tomorrow's day of the month, which stays inside the
  current month: on 2025-01-31 at 21:00, after Isha, \<^verbatim>\<open>nextPrayer\<close> returns Fajr at
  2025-01-01 05:00 (1735707600000), thirty days before \<open>now\<close>, where the following day's
  Fajr is 2025-02-01 05:00 (1738386000000).
\<close>

theorem nextPrayer_last_day_of_month:
  "nextPrayer 0 1738357200000 (exampleState 1738357200000)
     = Some \<lparr>name = ''Fajr'', time = Num 1735707600000, timeString = ''05:00''\<rparr>
   \<and> \<not> js_gt (Num 1735707600000) (Num 1738357200000)"
  by code_simp

text \<open>
  C2. The previous-prayer resolver is to return the last prayer of the fixed order whose
  instant today is not after \<open>now\<close>, and Isha of the previous calendar day when there is
  none, so that the instant it returns is never after \<open>now\<close>. The fallback sets the day of
  the month of today's Isha to yesterday's day of the month, again inside the current
  month: on 2025-03-01 at 04:00, before Fajr, \<^verbatim>\<open>previousPrayer\<close> returns Isha at
  2025-03-28 20:00 (1743192000000), four weeks after \<open>now\<close>, where yesterday's Isha is
  2025-02-28 20:00 (1740772800000).
\<close>

theorem previousPrayer_first_day_of_month:
  "previousPrayer 0 1740801600000 (exampleState 1740801600000)
     = Some \<lparr>name = ''Isha'', time = Num 1743192000000, timeString = ''20:00''\<rparr>
   \<and> \<not> js_le (Num 1743192000000) (Num 1740801600000)"
  by code_simp

section \<open>The duration computations\<close>

text \<open>
  When the target is \<open>now\<close> itself the difference is 0 in both directions, and the guard
  of both computations is \<^verbatim>\<open>diff < 0\<close>: both are defined, neither is not applicable.
\<close>

theorem durations_both_defined:
  "remainingUntil (Some maqhribToday) 1736965800000 \<noteq> None
   \<and> elapsedSince (Some maqhribToday) 1736965800000 \<noteq> None"
  by (simp add: remainingUntil_def elapsedSince_def maqhribToday_def)

text \<open>
  C3, as the code has it. For a target instant \<open>t\<close> and every \<open>now\<close>: the remaining
  duration is not applicable exactly when \<open>t < now\<close>, the elapsed duration exactly when
  \<open>now < t\<close>. So exactly one of them is not applicable when \<open>t\<close> differs from \<open>now\<close>, both
  are defined when \<open>t = now\<close>, and they are never both not applicable.
\<close>

theorem duration_applicable:
  assumes "time p = Num t"
  shows "(remainingUntil (Some p) now = None) = (t < now)
     \<and> (elapsedSince (Some p) now = None) = (now < t)
     \<and> (t = now) = (remainingUntil (Some p) now \<noteq> None \<and> elapsedSince (Some p) now \<noteq> None)
     \<and> (remainingUntil (Some p) now \<noteq> None \<or> elapsedSince (Some p) now \<noteq> None)"
  using assms by (auto simp add: remainingUntil_def elapsedSince_def Let_def)

theorem duration_applicable_witness:
  "time maqhribToday = Num 1736965800000
   \<and> remainingUntil (Some maqhribToday) 1736965560000 \<noteq> None
   \<and> elapsedSince (Some maqhribToday) 1736965560000 = None
   \<and> remainingUntil (Some maqhribToday) 1736965860000 = None
   \<and> elapsedSince (Some maqhribToday) 1736965860000 \<noteq> None"
proof -
  have t: "time maqhribToday = Num 1736965800000" by (simp add: maqhribToday_def)
  show ?thesis
    using t duration_applicable [OF t, of 1736965560000]
      duration_applicable [OF t, of 1736965860000]
    by simp
qed

section \<open>Converting a time string\<close>

text \<open>
  \<open>25:00\<close> is not an \<open>HH:MM\<close> of the specification, and \<^verbatim>\<open>prayerTimeToDate\<close> turns it into
  an instant all the same: on 2025-01-31 it is 2025-02-01 01:00 (1738371600000).
\<close>

theorem prayerTimeToDate_out_of_range:
  "\<not> spec_HHMM ''25:00''
   \<and> prayerTimeToDate 0 1738357200000 ''25:00'' = Num 1738371600000"
  by code_simp

text \<open>
  C4, as the code has it. \<^verbatim>\<open>prayerTimeToDate\<close> checks nothing and raises nothing. For two
  strings of decimal digits \<open>hs\<close> and \<open>ms\<close>, of any length and value, the string
  \<open>hs:ms\<close> becomes midnight of the clock's local day plus \<open>hs\<close> hours and \<open>ms\<close> minutes (an
  Invalid Date only where that leaves the range of Date), so an hour beyond 23 or a
  minute beyond 59 runs on into the following hours and days. A string with no colon
  becomes an Invalid Date, the time value \<^verbatim>\<open>NaN\<close>.
\<close>

theorem prayerTimeToDate_never_fails:
  "(list_all is_digit hs \<and> list_all is_digit ms \<longrightarrow>
      prayerTimeToDate tza clock (hs @ '':'' @ ms) =
        TimeClip (Num (Day (LocalTime tza clock) * msPerDay
                       + (decimal_value hs * msPerHour + decimal_value ms * msPerMinute) - tza)))
   \<and> (CHR '':'' \<notin> set s \<longrightarrow> prayerTimeToDate tza clock s = NaN)"
proof (intro conjI impI)
  assume "list_all is_digit hs \<and> list_all is_digit ms"
  then show "prayerTimeToDate tza clock (hs @ '':'' @ ms) =
        TimeClip (Num (Day (LocalTime tza clock) * msPerDay
                       + (decimal_value hs * msPerHour + decimal_value ms * msPerMinute) - tza))"
    by (intro prayerTimeToDate_digits) simp_all
next
  assume "CHR '':'' \<notin> set s"
  then have "split CHR '':'' s = [s]" by (rule split_without)
  then show "prayerTimeToDate tza clock s = NaN"
    by (cases "Number s") (simp_all add: prayerTimeToDate_def Let_def)
qed

theorem prayerTimeToDate_never_fails_witness:
  "list_all is_digit ''25'' \<and> list_all is_digit ''00''
   \<and> prayerTimeToDate 0 1738357200000 ''25:00'' = Num 1738371600000
   \<and> CHR '':'' \<notin> set ''0500''
   \<and> prayerTimeToDate 0 1738357200000 ''0500'' = NaN"
proof -
  have d: "list_all is_digit ''25'' \<and> list_all is_digit ''00''" by (simp add: is_digit_def)
  have c: "CHR '':'' \<notin> set ''0500''" by simp
  have v: "TimeClip (Num (Day (LocalTime 0 1738357200000) * msPerDay
             + (decimal_value ''25'' * msPerHour + decimal_value ''00'' * msPerMinute) - 0))
           = Num 1738371600000"
    by code_simp
  show ?thesis
    using d c v prayerTimeToDate_never_fails [of "''25''" "''00''" 0 1738357200000 "''0500''"]
    by simp
qed

section \<open>Notifications\<close>

text \<open>
  C5. \<^verbatim>\<open>checkNotification\<close> emits when the key of the matched threshold differs from the one
  stored and then stores it, which is to give three emissions as the clock passes five
  minutes, one minute and zero before one prayer. The timer fires here from 18:24:00 to
  18:31:00 on 2025-01-15, around Maqhrib at 18:30, on both sides of each boundary and on
  each boundary itself. Two notifications are emitted, and the key left is that of the
  one-minute threshold: at 18:30:00 the remaining time of Maqhrib would be 0, but
  \<^verbatim>\<open>nextPrayer\<close> already returns Isha, so the branch for \<^verbatim>\<open>-now\<close> is not reached.
\<close>

theorem run_across_prayer_time:
  "run 0 [1736965440000, 1736965499000, 1736965500000, 1736965501000, 1736965620000,
          1736965739000, 1736965740000, 1736965741000, 1736965770000,
          1736965799000, 1736965800000, 1736965801000, 1736965860000]
       (exampleState 1736965380000)
   = ([(''Maqhrib prayer in 5 minutes!'', ''Time: 18:30''),
       (''Maqhrib prayer in 1 minute!'', ''Time: 18:30'')],
      (exampleState 1736965860000)\<lparr>notificationShown := ''Maqhrib-1min''\<rparr>)"
  by code_simp

text \<open>
  C6. For every remaining duration with a total of \<open>r\<close> milliseconds, whatever \<open>r\<close> is,
  and every next prayer, the body of \<^verbatim>\<open>checkNotification\<close> acts on the key of the
  specification's threshold mapping: \<open>r \<le> 0\<close> gives the prayer's name with \<open>-now\<close>,
  otherwise \<open>r \<le> 60000\<close> gives it with \<open>-1min\<close>, otherwise \<open>r \<le> 300000\<close> gives it with
  \<open>-5min\<close>. With no key (more than five minutes remain) nothing is emitted and the state
  is left as it is; with a key equal to the stored one likewise; with any other key the
  notification of that threshold is emitted and the key is stored. \<^verbatim>\<open>checkNotification\<close> is
  this body on the remaining duration and the next prayer of the moment.
\<close>

theorem notification_key:
  assumes "totalMs remaining = Num r"
  shows "checkNotification_body (Some remaining) (Some next) st =
           (case spec_key (name next) r of
              None \<Rightarrow> (None, st)
            | Some key \<Rightarrow>
                if notificationShown st = key then (None, st)
                else (Some (name next @
                             (if r \<le> 0 then '' prayer time!''
                              else if r \<le> 60000 then '' prayer in 1 minute!''
                              else '' prayer in 5 minutes!''),
                            ''Time: '' @ timeString next),
                      st\<lparr>notificationShown := key\<rparr>))
     \<and> checkNotification tza clock st =
           checkNotification_body (timeRemaining tza clock st) (nextPrayer tza clock st) st"
  using assms
  by (simp add: checkNotification_def checkNotification_body_def spec_key_def
      spec_threshold_def Let_def)

theorem notification_key_witness:
  "totalMs (decompose (Num 0)) = Num 0
   \<and> checkNotification_body (Some (decompose (Num 0))) (Some maqhribToday)
         (exampleState 1736965800000)
       = (Some (''Maqhrib prayer time!'', ''Time: 18:30''),
          (exampleState 1736965800000)\<lparr>notificationShown := ''Maqhrib-now''\<rparr>)
   \<and> checkNotification_body (Some (decompose (Num 0))) (Some maqhribToday)
         ((exampleState 1736965800000)\<lparr>notificationShown := ''Maqhrib-now''\<rparr>)
       = (None, (exampleState 1736965800000)\<lparr>notificationShown := ''Maqhrib-now''\<rparr>)
   \<and> checkNotification_body (Some (decompose (Num 60000))) (Some maqhribToday)
         (exampleState 1736965740000)
       = (Some (''Maqhrib prayer in 1 minute!'', ''Time: 18:30''),
          (exampleState 1736965740000)\<lparr>notificationShown := ''Maqhrib-1min''\<rparr>)
   \<and> checkNotification_body (Some (decompose (Num 300000))) (Some maqhribToday)
         (exampleState 1736965500000)
       = (Some (''Maqhrib prayer in 5 minutes!'', ''Time: 18:30''),
          (exampleState 1736965500000)\<lparr>notificationShown := ''Maqhrib-5min''\<rparr>)
   \<and> checkNotification_body (Some (decompose (Num 300001))) (Some maqhribToday)
         (exampleState 1736965499999)
       = (None, exampleState 1736965499999)"
proof -
  have t: "totalMs (decompose (Num r)) = Num r" for r
    by (simp add: decompose_def)
  have k: "spec_key (name maqhribToday) 0 = Some ''Maqhrib-now''"
    "spec_key (name maqhribToday) 60000 = Some ''Maqhrib-1min''"
    "spec_key (name maqhribToday) 300000 = Some ''Maqhrib-5min''"
    "spec_key (name maqhribToday) 300001 = None"
    by (simp_all add: spec_key_def spec_threshold_def maqhribToday_def)
  have s: "notificationShown (exampleState n) = []" for n
    by (simp add: exampleState_def)
  have m: "name maqhribToday = ''Maqhrib''" "timeString maqhribToday = ''18:30''"
    by (simp_all add: maqhribToday_def)
  show ?thesis
    using t [of 0] k s m
      notification_key [OF t [of 0], of maqhribToday "exampleState 1736965800000" 0 0]
      notification_key [OF t [of 0], of maqhribToday
        "(exampleState 1736965800000)\<lparr>notificationShown := ''Maqhrib-now''\<rparr>" 0 0]
      notification_key [OF t [of 60000], of maqhribToday "exampleState 1736965740000" 0 0]
      notification_key [OF t [of 300000], of maqhribToday "exampleState 1736965500000" 0 0]
      notification_key [OF t [of 300001], of maqhribToday "exampleState 1736965499999" 0 0]
    by simp
qed

section \<open>The mode selector\<close>

text \<open>
  Without a click, and with no elapsed duration at all, \<^verbatim>\<open>shouldShowNextPrayer\<close> is true:
  before any schedule has arrived, and on 2025-03-01 at 04:00, where the previous prayer
  returned lies after \<open>now\<close>. No elapsed time exceeds the threshold there.
\<close>

theorem auto_without_elapsed_shows_next:
  "\<not> isManualToggle (initialState 0)
   \<and> timePassed 0 0 (initialState 0) = None
   \<and> shouldShowNextPrayer 0 0 (initialState 0)
   \<and> \<not> isManualToggle (exampleState 1740801600000)
   \<and> timePassed 0 1740801600000 (exampleState 1740801600000) = None
   \<and> shouldShowNextPrayer 0 1740801600000 (exampleState 1740801600000)"
  by code_simp

text \<open>
  C7, as the code has it. Once the user has clicked, the selector returns the stored
  flag, whatever the schedule and the clock are, and a click stores the negation of the
  flag. Without a click: when the elapsed duration is defined, with \<open>e\<close> milliseconds in
  total, the selector shows the next prayer exactly when \<open>e\<close> is more than 2100000; when
  the elapsed duration is not applicable, it shows the next prayer.
\<close>

theorem mode_selector:
  "(isManualToggle st \<longrightarrow> shouldShowNextPrayer tza clock st = showNextPrayer st)
   \<and> shouldShowNextPrayer tza clock (togglePrayerMode st) = (\<not> showNextPrayer st)
   \<and> (\<not> isManualToggle st \<longrightarrow>
        (\<forall>passed e. timePassed tza clock st = Some passed \<and> totalMs passed = Num e \<longrightarrow>
            shouldShowNextPrayer tza clock st = (2100000 < e))
        \<and> (timePassed tza clock st = None \<longrightarrow> shouldShowNextPrayer tza clock st))"
  by (simp add: shouldShowNextPrayer_def togglePrayerMode_def)

theorem mode_selector_witness:
  "\<not> isManualToggle (exampleState 1736967900001)
   \<and> timePassed 0 1736967900001 (exampleState 1736967900001)
       = Some \<lparr>hours = Num 0, minutes = Num 35, seconds = Num 0, totalMs = Num 2100001\<rparr>
   \<and> shouldShowNextPrayer 0 1736967900001 (exampleState 1736967900001)
   \<and> timePassed 0 1736967899999 (exampleState 1736967899999)
       = Some \<lparr>hours = Num 0, minutes = Num 34, seconds = Num 59, totalMs = Num 2099999\<rparr>
   \<and> \<not> shouldShowNextPrayer 0 1736967899999 (exampleState 1736967899999)
   \<and> timePassed 0 0 (initialState 0) = None
   \<and> shouldShowNextPrayer 0 0 (initialState 0)
   \<and> isManualToggle (togglePrayerMode (exampleState 1736967900001))
   \<and> \<not> shouldShowNextPrayer 0 1736967900001 (togglePrayerMode (exampleState 1736967900001))"
proof -
  have a: "\<not> isManualToggle (exampleState n)" "showNextPrayer (exampleState n)" for n
    by (simp_all add: exampleState_def)
  have i: "\<not> isManualToggle (initialState 0)" by (simp add: initialState_def)
  have m: "isManualToggle (togglePrayerMode (exampleState 1736967900001))"
    by (simp add: togglePrayerMode_def)
  have p1: "timePassed 0 1736967900001 (exampleState 1736967900001)
       = Some \<lparr>hours = Num 0, minutes = Num 35, seconds = Num 0, totalMs = Num 2100001\<rparr>"
    by code_simp
  have p2: "timePassed 0 1736967899999 (exampleState 1736967899999)
       = Some \<lparr>hours = Num 0, minutes = Num 34, seconds = Num 59, totalMs = Num 2099999\<rparr>"
    by code_simp
  have p3: "timePassed 0 0 (initialState 0) = None"
    by (simp add: timePassed_def previousPrayer_def elapsedSince_def initialState_def)
  show ?thesis
    using a i m p1 p2 p3
      mode_selector [of "exampleState 1736967900001" 0 1736967900001]
      mode_selector [of "exampleState 1736967899999" 0 1736967899999]
      mode_selector [of "initialState 0" 0 0]
    by simp
qed

section \<open>Next and previous together\<close>

text \<open>
  C8. With a schedule whose six entries convert to valid instants, as six \<open>HH:MM\<close>
  entries do (lemma \<open>spec_schedule_valid\<close>), both resolvers return a prayer and never the
  same one, at every \<open>now\<close>. When the schedule is increasing and \<open>now\<close> is exactly the
  instant of a prayer, that prayer is the previous one, at that very instant, and it is
  not the next one.
\<close>

theorem resolvers_never_agree:
  assumes data: "prayerData st = Some data"
    and valid: "\<forall>k. prayerTimeToDate tza clock (timing (timings data) k) \<noteq> NaN"
  shows "\<exists>n p. nextPrayer tza clock st = Some n \<and> previousPrayer tza clock st = Some p
           \<and> name n \<noteq> name p
           \<and> (\<forall>k. increasing tza clock (timings data)
                   \<and> prayerTimeToDate tza clock (timing (timings data) k) = Num (currentTime st)
                \<longrightarrow> name p = keyName k \<and> time p = Num (currentTime st) \<and> name n \<noteq> keyName k)"
proof -
  from valid obtain a b c d e f where T:
    "prayerTimeToDate tza clock (Fajr (timings data)) = Num a"
    "prayerTimeToDate tza clock (Sunrise (timings data)) = Num b"
    "prayerTimeToDate tza clock (Duhur (timings data)) = Num c"
    "prayerTimeToDate tza clock (Asr (timings data)) = Num d"
    "prayerTimeToDate tza clock (Maqhrib (timings data)) = Num e"
    "prayerTimeToDate tza clock (Isha (timings data)) = Num f"
    by (rule valid_instants)
  have "\<exists>n. nextPrayer tza clock st = Some n"
    unfolding nextPrayer_def Let_def by (simp add: data split: option.split)
  then obtain n where n: "nextPrayer tza clock st = Some n" ..
  have "\<exists>p. previousPrayer tza clock st = Some p"
    unfolding previousPrayer_def Let_def by (simp add: data split: option.split)
  then obtain p where p: "previousPrayer tza clock st = Some p" ..
  have ne: "name n \<noteq> name p"
    using n p unfolding nextPrayer_def previousPrayer_def prayerOrder_def
    by (auto simp add: data T Let_def simp del: setDate.simps getDate.simps split: if_splits)
  have bd: "name p = keyName k \<and> time p = Num (currentTime st)"
    if "increasing tza clock (timings data)"
      and "prayerTimeToDate tza clock (timing (timings data) k) = Num (currentTime st)" for k
    using that p unfolding previousPrayer_def prayerOrder_def increasing_def
    by (cases k)
      (auto simp add: data T Let_def simp del: setDate.simps getDate.simps split: if_splits)
  show ?thesis using n p ne bd by auto
qed

theorem resolvers_never_agree_witness:
  "prayerData (exampleState 1736965800000) = Some \<lparr>timings = exampleTimings\<rparr>
   \<and> (\<forall>k. prayerTimeToDate 0 1736965800000 (timing exampleTimings k) \<noteq> NaN)
   \<and> increasing 0 1736965800000 exampleTimings
   \<and> prayerTimeToDate 0 1736965800000 (timing exampleTimings KMaqhrib) = Num 1736965800000
   \<and> (\<exists>n p. nextPrayer 0 1736965800000 (exampleState 1736965800000) = Some n
         \<and> previousPrayer 0 1736965800000 (exampleState 1736965800000) = Some p
         \<and> name n \<noteq> name p \<and> name p = ''Maqhrib'' \<and> time p = Num 1736965800000
         \<and> name n \<noteq> ''Maqhrib'')"
proof -
  have d: "prayerData (exampleState 1736965800000) = Some \<lparr>timings = exampleTimings\<rparr>"
    and c: "currentTime (exampleState 1736965800000) = 1736965800000"
    by (simp_all add: exampleState_def)
  have v: "\<forall>k. prayerTimeToDate 0 1736965800000
                 (timing (timings \<lparr>timings = exampleTimings\<rparr>) k) \<noteq> NaN"
    using exampleTimings_valid by simp
  have i: "increasing 0 1736965800000 exampleTimings" by code_simp
  have m: "prayerTimeToDate 0 1736965800000 (timing exampleTimings KMaqhrib) = Num 1736965800000"
    by code_simp
  from resolvers_never_agree [OF d v] obtain n p where
    np: "nextPrayer 0 1736965800000 (exampleState 1736965800000) = Some n"
      "previousPrayer 0 1736965800000 (exampleState 1736965800000) = Some p"
      "name n \<noteq> name p"
    and b: "\<forall>k. increasing 0 1736965800000 (timings \<lparr>timings = exampleTimings\<rparr>)
             \<and> prayerTimeToDate 0 1736965800000 (timing (timings \<lparr>timings = exampleTimings\<rparr>) k)
                 = Num (currentTime (exampleState 1736965800000))
             \<longrightarrow> name p = keyName k \<and> time p = Num (currentTime (exampleState 1736965800000))
                 \<and> name n \<noteq> keyName k"
    by blast
  from b [rule_format, of KMaqhrib] i m c
  have "name p = ''Maqhrib'' \<and> time p = Num 1736965800000 \<and> name n \<noteq> ''Maqhrib''" by simp
  with np d v i m show ?thesis by auto
qed

section \<open>No schedule\<close>

text \<open>
  C9. While \<^verbatim>\<open>prayerData\<close> is \<^verbatim>\<open>null\<close>, the next prayer, the previous prayer, the remaining
  and the elapsed duration are all \<^verbatim>\<open>null\<close>, and \<^verbatim>\<open>checkNotification\<close>, also when run by
  the timer, emits nothing and leaves the stored key as it is.
\<close>

theorem no_schedule_nothing_derived:
  assumes "prayerData st = None"
  shows "nextPrayer tza clock st = None \<and> previousPrayer tza clock st = None
    \<and> timeRemaining tza clock st = None \<and> timePassed tza clock st = None
    \<and> checkNotification tza clock st = (None, st)
    \<and> fst (tick tza clock st) = None
    \<and> notificationShown (snd (tick tza clock st)) = notificationShown st"
  using assms
  by (simp add: nextPrayer_def previousPrayer_def timeRemaining_def timePassed_def
      remainingUntil_def elapsedSince_def checkNotification_def checkNotification_body_def
      tick_def)

theorem no_schedule_nothing_derived_witness:
  "prayerData (initialState 1736965800000) = None
   \<and> nextPrayer 0 1736965800000 (initialState 1736965800000) = None
   \<and> previousPrayer 0 1736965800000 (initialState 1736965800000) = None
   \<and> timeRemaining 0 1736965800000 (initialState 1736965800000) = None
   \<and> timePassed 0 1736965800000 (initialState 1736965800000) = None
   \<and> checkNotification 0 1736965800000 (initialState 1736965800000)
       = (None, initialState 1736965800000)"
proof -
  have d: "prayerData (initialState 1736965800000) = None" by (simp add: initialState_def)
  from no_schedule_nothing_derived [OF d, of 0 1736965800000] d show ?thesis by simp
qed

section \<open>The manual toggle\<close>

text \<open>
  C10. From the refs as the script initialises them, after any sequence of timer
  firings, successful fetches and clicks: the stored flag shows the next prayer exactly
  when the number of clicks is even, and once there has been a click this flag is what
  is displayed. Before any click, the first click pins the display to the previous
  prayer; where the automatic rule was already displaying the previous prayer, that
  click leaves the displayed mode as it was.
\<close>

theorem manual_toggle_parity:
  "showNextPrayer (handleAll tza es (initialState t0)) = even (count_list es PrayerNameClicked)
   \<and> (0 < count_list es PrayerNameClicked \<longrightarrow>
        shouldShowNextPrayer tza clock (handleAll tza es (initialState t0))
          = even (count_list es PrayerNameClicked))
   \<and> (count_list es PrayerNameClicked = 0 \<longrightarrow>
        \<not> shouldShowNextPrayer tza clock
            (togglePrayerMode (handleAll tza es (initialState t0)))
        \<and> (\<not> shouldShowNextPrayer tza clock (handleAll tza es (initialState t0)) \<longrightarrow>
             shouldShowNextPrayer tza clock (togglePrayerMode (handleAll tza es (initialState t0)))
               = shouldShowNextPrayer tza clock (handleAll tza es (initialState t0))))"
  by (simp add: shouldShowNextPrayer_def handleAll_flags togglePrayerMode_def initialState_def)

theorem manual_toggle_parity_witness:
  "0 < count_list [Fetched \<lparr>timings = exampleTimings\<rparr>, TimerFired 1736965800000,
                   PrayerNameClicked, TimerFired 1736965801000, PrayerNameClicked,
                   PrayerNameClicked] PrayerNameClicked
   \<and> \<not> shouldShowNextPrayer 0 1736965802000
         (handleAll 0 [Fetched \<lparr>timings = exampleTimings\<rparr>, TimerFired 1736965800000,
             PrayerNameClicked, TimerFired 1736965801000, PrayerNameClicked,
             PrayerNameClicked] (initialState 1736965700000))
   \<and> count_list [Fetched \<lparr>timings = exampleTimings\<rparr>, TimerFired 1736965800000]
         PrayerNameClicked = 0
   \<and> \<not> shouldShowNextPrayer 0 1736965800000
         (handleAll 0 [Fetched \<lparr>timings = exampleTimings\<rparr>, TimerFired 1736965800000]
            (initialState 1736965700000))
   \<and> \<not> shouldShowNextPrayer 0 1736965800000
         (togglePrayerMode
           (handleAll 0 [Fetched \<lparr>timings = exampleTimings\<rparr>, TimerFired 1736965800000]
              (initialState 1736965700000)))"
proof -
  have auto_previous: "\<not> shouldShowNextPrayer 0 1736965800000
         (handleAll 0 [Fetched \<lparr>timings = exampleTimings\<rparr>, TimerFired 1736965800000]
            (initialState 1736965700000))"
    by code_simp
  show ?thesis
    using auto_previous
      manual_toggle_parity [of 0 "[Fetched \<lparr>timings = exampleTimings\<rparr>,
        TimerFired 1736965800000, PrayerNameClicked, TimerFired 1736965801000,
        PrayerNameClicked, PrayerNameClicked]" 1736965700000 1736965802000]
      manual_toggle_parity [of 0 "[Fetched \<lparr>timings = exampleTimings\<rparr>,
        TimerFired 1736965800000]" 1736965700000 1736965800000]
    by simp
qed

end
